theory Spec2Isabelle
  imports Complex_Main "HOL-Library.Multiset"
begin

section \<open>JavaScript values as the client script reads them\<close>

text \<open>
  The development embeds the ranking and swipe logic of \<^verbatim>\<open>script.js\<close>. JavaScript numbers
  are idealised as reals (no rounding, no infinities); \<^verbatim>\<open>NaN\<close> is the value \<open>None\<close> of
  \<open>real option\<close>. A field of a JSON object that the script passes to \<^verbatim>\<open>parseFloat\<close> is
  given by what the script can observe of it: whether it is nullish (\<^verbatim>\<open>undefined\<close> or
  \<^verbatim>\<open>null\<close>, the only values \<^verbatim>\<open>??\<close> replaces), and otherwise the number \<^verbatim>\<open>parseFloat\<close>
  reads from it, if any.
\<close>

datatype jsfield = Nullish | NotANumber | Number real

fun parseFloat :: "jsfield \<Rightarrow> real option" where
  "parseFloat Nullish = None"
| "parseFloat NotANumber = None"
| "parseFloat (Number r) = Some r"

text \<open>\<^verbatim>\<open>a ?? b\<close>\<close>

fun nullish_or :: "jsfield \<Rightarrow> jsfield \<Rightarrow> jsfield" where
  "nullish_or Nullish b = b"
| "nullish_or a b = a"

text \<open>
  \<^verbatim>\<open>parseInt(x, 10) || 0\<close> on a number whose decimal rendering has no exponent: the
  integer part, and 0 for \<^verbatim>\<open>NaN\<close>.
\<close>

fun parseInt_or0 :: "jsfield \<Rightarrow> int" where
  "parseInt_or0 (Number r) = (if 0 \<le> r then \<lfloor>r\<rfloor> else \<lceil>r\<rceil>)"
| "parseInt_or0 x = 0"

definition clamp :: "int \<Rightarrow> int \<Rightarrow> int \<Rightarrow> int" where
  "clamp val lo hi = max lo (min hi val)"

subsection \<open>Decimal rendering of a number inside a template string\<close>

definition digit_char :: "nat \<Rightarrow> char" where
  "digit_char d = ''0123456789'' ! (d mod 10)"

function show_nat :: "nat \<Rightarrow> string" where
  "show_nat n = (if n < 10 then [digit_char n] else show_nat (n div 10) @ [digit_char n])"
  by pat_completeness auto
termination
  by (relation "measure id") auto

subsection \<open>Objects used as dictionaries, in the order \<^verbatim>\<open>Object.keys\<close> lists them\<close>

text \<open>
  An object whose key order the script observes is an association list in the order of
  \<^verbatim>\<open>Object.keys\<close>: array-index keys first, by ascending value, then the other keys in the
  order they were first set. Setting an existing key keeps its position.
\<close>

definition is_digit :: "char \<Rightarrow> bool" where
  "is_digit c = (c \<in> set ''0123456789'')"

definition digit_val :: "char \<Rightarrow> nat" where
  "digit_val c = of_char c - 48"

definition str_to_nat :: "string \<Rightarrow> nat" where
  "str_to_nat s = foldl (\<lambda>n c. 10 * n + digit_val c) 0 s"

definition is_array_index :: "string \<Rightarrow> bool" where
  "is_array_index k =
     (k \<noteq> [] \<and> list_all is_digit k \<and> (k = ''0'' \<or> hd k \<noteq> CHR ''0'') \<and>
      str_to_nat k < 4294967295)"

fun obj_insert_index :: "string \<Rightarrow> 'v \<Rightarrow> (string \<times> 'v) list \<Rightarrow> (string \<times> 'v) list" where
  "obj_insert_index k v [] = [(k, v)]"
| "obj_insert_index k v ((k', v') # rest) =
     (if is_array_index k' \<and> str_to_nat k' < str_to_nat k
      then (k', v') # obj_insert_index k v rest
      else (k, v) # (k', v') # rest)"

definition obj_get :: "(string \<times> 'v) list \<Rightarrow> string \<Rightarrow> 'v option" where
  "obj_get obj k = map_of obj k"

definition obj_set :: "(string \<times> 'v) list \<Rightarrow> string \<Rightarrow> 'v \<Rightarrow> (string \<times> 'v) list" where
  "obj_set obj k v =
     (if obj_get obj k \<noteq> None then map (\<lambda>(k', v'). if k' = k then (k', v) else (k', v')) obj
      else if is_array_index k then obj_insert_index k v obj
      else obj @ [(k, v)])"

text \<open>\<^verbatim>\<open>Object.fromEntries\<close>, read only by key: a later entry replaces an earlier one.\<close>

definition fromEntries :: "(string \<times> 'v) list \<Rightarrow> (string \<Rightarrow> 'v option)" where
  "fromEntries kvs = foldl (\<lambda>m (k, v). m(k \<mapsto> v)) Map.empty kvs"

section \<open>Movies\<close>

text \<open>
  A movie object with the fields the script reads. An absent string field is the empty
  string: the script only tests these fields for truthiness. The field \<^verbatim>\<open>image\<close> is
  named \<open>image_name\<close> here.
\<close>

record movie =
  title :: string
  display :: string
  image_name :: string
  imageAbsolute :: string
  addedBy :: string
  source :: string

definition to_lower :: "char \<Rightarrow> char" where
  "to_lower c = (if c \<in> set ''ABCDEFGHIJKLMNOPQRSTUVWXYZ'' then char_of (of_char c + (32::nat)) else c)"

text \<open>\<^verbatim>\<open>/^https?:/.test(s)\<close> and \<^verbatim>\<open>/^https?:|^data:/.test(s)\<close>\<close>

definition is_http :: "string \<Rightarrow> bool" where
  "is_http s = (take 5 s = ''http:'' \<or> take 6 s = ''https:'')"

definition is_http_or_data :: "string \<Rightarrow> bool" where
  "is_http_or_data s = (is_http s \<or> take 5 s = ''data:'')"

text \<open>\<^verbatim>\<open>s.split('/').pop()\<close>\<close>

definition last_segment :: "string \<Rightarrow> string" where
  "last_segment s = rev (takeWhile (\<lambda>c. c \<noteq> CHR ''/'') (rev s))"

definition resolveMovieImage :: "string \<Rightarrow> movie \<Rightarrow> string" where
  "resolveMovieImage API_BASE m =
     (let candidate = (if imageAbsolute m \<noteq> [] then imageAbsolute m else image_name m)
      in if is_http_or_data candidate then candidate
         else if candidate = [] then []
         else API_BASE @ ''/images/'' @ candidate)"

definition normalizeMovieImage :: "string \<Rightarrow> movie \<Rightarrow> movie" where
  "normalizeMovieImage API_BASE m =
     (let img = (if image_name m \<noteq> [] then image_name m else imageAbsolute m);
          filename = (if is_http (map to_lower img)
                      then (if last_segment img \<noteq> [] then last_segment img else img)
                      else img);
          abs = resolveMovieImage API_BASE
                  \<lparr>title = [], display = [], image_name = filename, imageAbsolute = [],
                   addedBy = [], source = []\<rparr>
      in m\<lparr>image_name := filename, imageAbsolute := abs,
           source := (if source m \<noteq> [] then source m else ''manual'')\<rparr>)"

text \<open>\<^verbatim>\<open>Object.fromEntries(movies.map(m => [m.title, m]))\<close>\<close>

definition movie_map :: "movie list \<Rightarrow> (string \<Rightarrow> movie option)" where
  "movie_map ms = fromEntries (map (\<lambda>m. (title m, m)) ms)"

section \<open>Ranking: beliefs, coverage and the loaded state\<close>

record raw_rating =
  raw_ts_mu :: jsfield
  raw_rating :: jsfield
  raw_ts_sigma :: jsfield
  raw_games :: jsfield
  raw_wins :: jsfield

record rating =
  ts_mu :: real
  ts_sigma :: real
  games :: int
  wins :: int

definition empty_entry :: raw_rating where
  "empty_entry = \<lparr>raw_ts_mu = Nullish, raw_rating = Nullish, raw_ts_sigma = Nullish,
                  raw_games = Nullish, raw_wins = Nullish\<rparr>"

definition ensureTsRating :: "real \<Rightarrow> real \<Rightarrow> raw_rating option \<Rightarrow> rating" where
  "ensureTsRating TS_MU TS_SIGMA entry =
     (let base = (case entry of None \<Rightarrow> empty_entry | Some e \<Rightarrow> e);
          mu = parseFloat (nullish_or (raw_ts_mu base) (nullish_or (raw_rating base) (Number TS_MU)));
          sigma = parseFloat (nullish_or (raw_ts_sigma base) (Number TS_SIGMA))
      in \<lparr>ts_mu = (case mu of None \<Rightarrow> TS_MU | Some x \<Rightarrow> x),
          ts_sigma = (case sigma of None \<Rightarrow> TS_SIGMA | Some x \<Rightarrow> max x 0.0001),
          games = parseInt_or0 (nullish_or (raw_games base) (Number 0)),
          wins = parseInt_or0 (nullish_or (raw_wins base) (Number 0))\<rparr>)"


record raw_coverage =
  raw_coveredPairs :: "real option"
  raw_totalPairs :: "real option"

record coverage =
  coveredPairs :: real
  totalPairs :: real
  ratio :: real

text \<open>
  The part of a state object sent by the server that the modelled functions read. A
  field that is absent is \<open>None\<close> (or \<open>Nullish\<close>); \<open>st_ratings\<close> is the \<^verbatim>\<open>ratings\<close> object in
  its key order; \<open>st_personCount\<close>, when present, is an integer.
\<close>

record server_state =
  st_movies :: "movie list"
  st_tsMu :: jsfield
  st_tsSigma :: jsfield
  st_ratings :: "(string \<times> raw_rating) list"
  st_personCount :: "int option"
  st_pairCoverage :: "raw_coverage option"
  st_pairCoveragePerPerson :: "string \<Rightarrow> raw_coverage option"
  st_rankerConfirmed :: bool

text \<open>
  The ranking globals of the script. \<open>currentPair\<close> is \<^verbatim>\<open>null\<close> (\<open>None\<close>) or a two-element
  array whose elements are movie objects or \<^verbatim>\<open>undefined\<close> (\<open>None\<close>). Globals that no
  modelled function reads (vote counters, the current person, filters, the page) are left
  out.
\<close>

record rank_state =
  API_BASE :: string
  TS_MU :: real
  TS_SIGMA :: real
  movies :: "movie list"
  movieByTitle :: "string \<Rightarrow> movie option"
  ratings :: "(string \<times> rating) list"
  personCount :: nat
  persons :: "string list"
  currentPair :: "(movie option \<times> movie option) option"
  pairCoverage :: coverage
  pairCoveragePerPerson :: "string \<Rightarrow> coverage option"
  rankerConfirmed :: bool

definition initial_rank_state :: rank_state where
  "initial_rank_state =
     \<lparr>API_BASE = [], TS_MU = 1500, TS_SIGMA = 400, movies = [], movieByTitle = Map.empty,
      ratings = [], personCount = 1, persons = [], currentPair = None,
      pairCoverage = \<lparr>coveredPairs = 0, totalPairs = 0, ratio = 0\<rparr>,
      pairCoveragePerPerson = Map.empty, rankerConfirmed = False\<rparr>"

text \<open>
  \<^verbatim>\<open>normalizedRatings\<close> of \<^verbatim>\<open>applyState\<close>: first one entry per movie of the list, then
  one for every key of the incoming ratings that has none yet.
\<close>

definition normalizedRatings ::
  "real \<Rightarrow> real \<Rightarrow> movie list \<Rightarrow> (string \<times> raw_rating) list \<Rightarrow> (string \<times> rating) list" where
  "normalizedRatings mu sigma ms incoming =
     (let byMovie = foldl (\<lambda>acc m. obj_set acc (title m)
                              (ensureTsRating mu sigma (obj_get incoming (title m)))) [] ms
      in foldl (\<lambda>acc t. if obj_get acc t = None
                         then obj_set acc t (ensureTsRating mu sigma (obj_get incoming t))
                         else acc) byMovie (map fst incoming))"

text \<open>
  The three lines that build a coverage snapshot from a raw entry and the inferred number
  of pairs; the script writes them once for the overall snapshot and once per person.
\<close>

definition coverage_of :: "real \<Rightarrow> raw_coverage \<Rightarrow> coverage" where
  "coverage_of inferred raw =
     (let total = (case raw_totalPairs raw of None \<Rightarrow> inferred | Some t \<Rightarrow> t);
          covered = (case raw_coveredPairs raw of None \<Rightarrow> 0 | Some c \<Rightarrow> c)
      in \<lparr>coveredPairs = covered, totalPairs = total,
          ratio = (if total \<noteq> 0 then covered / total else 0)\<rparr>)"

definition rawCoverage :: "server_state \<Rightarrow> raw_coverage" where
  "rawCoverage st =
     (case st_pairCoverage st of
        None \<Rightarrow> \<lparr>raw_coveredPairs = Some 0, raw_totalPairs = Some 0\<rparr>
      | Some rc \<Rightarrow> rc)"

definition inferredTotalPairs :: "server_state \<Rightarrow> nat \<Rightarrow> real" where
  "inferredTotalPairs st n =
     (case raw_totalPairs (rawCoverage st) of
        Some t \<Rightarrow> t
      | None \<Rightarrow> (if 1 < n then (real n * (real n - 1)) / 2 else 0))"

definition person_names :: "nat \<Rightarrow> string list" where
  "person_names n = map (\<lambda>i. ''person'' @ show_nat (i + 1)) [0..<n]"

text \<open>
  The assignments of \<^verbatim>\<open>applyState\<close> up to the page updates. The per-person coverage map
  is given on the current persons; entries of the incoming map under other keys are kept
  by the script as they came and never read.
\<close>

definition applyState_globals :: "server_state \<Rightarrow> rank_state \<Rightarrow> rank_state" where
  "applyState_globals st s =
     (let ms = map (normalizeMovieImage (API_BASE s)) (st_movies st);
          mu = (case parseFloat (st_tsMu st) of None \<Rightarrow> TS_MU s | Some x \<Rightarrow> x);
          sigma = (case parseFloat (st_tsSigma st) of None \<Rightarrow> TS_SIGMA s | Some x \<Rightarrow> x);
          pc = (case st_personCount st of None \<Rightarrow> 1
                | Some n \<Rightarrow> if n = 0 then 1 else nat (max 1 n));
          ps = person_names pc;
          inferred = inferredTotalPairs st (length ms)
      in s\<lparr>movies := ms, TS_MU := mu, TS_SIGMA := sigma,
           movieByTitle := movie_map ms,
           ratings := normalizedRatings mu sigma ms (st_ratings st),
           personCount := pc, persons := ps,
           pairCoverage := coverage_of inferred (rawCoverage st),
           pairCoveragePerPerson :=
             (\<lambda>p. if p \<in> set ps
                   then Some (coverage_of inferred
                          (case st_pairCoveragePerPerson st p of
                             None \<Rightarrow> \<lparr>raw_coveredPairs = Some 0, raw_totalPairs = Some inferred\<rparr>
                           | Some e \<Rightarrow> e))
                   else None),
           rankerConfirmed := st_rankerConfirmed st\<rparr>)"

section \<open>Pair selection\<close>

text \<open>
  \<^verbatim>\<open>Math.random\<close> is a sequence of reals, \<open>rnd k\<close> being the value of its \<open>k\<close>-th call; a
  function that draws takes the number of calls made so far and returns the new number.
  The loops of \<^verbatim>\<open>randomNormal\<close> run until a draw is not zero, so they need not end: the
  result \<open>None\<close> is a call that never returns.
\<close>

partial_function (option) random_nonzero :: "(nat \<Rightarrow> real) \<Rightarrow> nat \<Rightarrow> (real \<times> nat) option" where
  "random_nonzero rnd pos =
     (if rnd pos = 0 then random_nonzero rnd (Suc pos) else Some (rnd pos, Suc pos))"

definition box_muller :: "real \<Rightarrow> real \<Rightarrow> real" where
  "box_muller u v = sqrt (- 2 * ln u) * cos (2 * pi * v)"

definition randomNormal :: "(nat \<Rightarrow> real) \<Rightarrow> nat \<Rightarrow> (real \<times> nat) option" where
  "randomNormal rnd pos =
     (case random_nonzero rnd pos of
        None \<Rightarrow> None
      | Some (u, p1) \<Rightarrow>
          (case random_nonzero rnd p1 of
             None \<Rightarrow> None
           | Some (v, p2) \<Rightarrow> Some (box_muller u v, p2)))"

text \<open>
  \<^verbatim>\<open>thompsonSample\<close> on the entry that \<^verbatim>\<open>ratings[title]\<close> holds. \<^verbatim>\<open>pickPair\<close> calls it on
  the keys of \<^verbatim>\<open>ratings\<close> only, where the entry exists and, coming from
  \<^verbatim>\<open>ensureTsRating\<close>, has both numbers.
\<close>

definition thompsonSample :: "(nat \<Rightarrow> real) \<Rightarrow> nat \<Rightarrow> rating \<Rightarrow> (real \<times> nat) option" where
  "thompsonSample rnd pos entry =
     (case randomNormal rnd pos of
        None \<Rightarrow> None
      | Some (z, p) \<Rightarrow> Some (ts_mu entry + z * ts_sigma entry, p))"

text \<open>\<^verbatim>\<open>Object.keys(ratings).map(title => ({ title, score: thompsonSample(title) }))\<close>\<close>

fun sample_keys ::
  "(nat \<Rightarrow> real) \<Rightarrow> nat \<Rightarrow> (string \<times> rating) list \<Rightarrow> ((string \<times> real) list \<times> nat) option" where
  "sample_keys rnd pos [] = Some ([], pos)"
| "sample_keys rnd pos ((t, e) # rest) =
     (case thompsonSample rnd pos e of
        None \<Rightarrow> None
      | Some (sc, p) \<Rightarrow>
          (case sample_keys rnd p rest of
             None \<Rightarrow> None
           | Some (scs, p') \<Rightarrow> Some ((t, sc) # scs, p')))"

text \<open>\<^verbatim>\<open>sampled.sort((a, b) => b.score - a.score)\<close>: a stable sort, highest score first.\<close>

definition sort_desc :: "(string \<times> real) list \<Rightarrow> (string \<times> real) list" where
  "sort_desc sampled = sort_key (\<lambda>p. - snd p) sampled"

datatype error = TypeError

text \<open>
  \<^verbatim>\<open>renderPair\<close> reads \<^verbatim>\<open>left.display\<close> and \<^verbatim>\<open>right.display\<close>: on an \<^verbatim>\<open>undefined\<close> element it
  throws. What it writes is on the page only.
\<close>

fun renderPair :: "(movie option \<times> movie option) option \<Rightarrow> error + unit" where
  "renderPair None = Inr ()"
| "renderPair (Some (Some l, Some r)) = Inr ()"
| "renderPair (Some (l, r)) = Inl TypeError"

text \<open>
  The test \<^verbatim>\<open>leftStill && rightStill\<close> on the current pair, with the two objects that
  replace it.
\<close>

definition still_pair :: "rank_state \<Rightarrow> (movie \<times> movie) option" where
  "still_pair s =
     (case currentPair s of
        Some (Some l, Some r) \<Rightarrow>
          (case (movieByTitle s (title l), movieByTitle s (title r)) of
             (Some l', Some r') \<Rightarrow> Some (l', r')
           | _ \<Rightarrow> None)
      | _ \<Rightarrow> None)"

text \<open>
  \<^verbatim>\<open>pickPair\<close> returns what \<^verbatim>\<open>renderPair\<close> did (an exception leaves the assignment to
  \<^verbatim>\<open>currentPair\<close> in place), the globals and the number of \<^verbatim>\<open>Math.random\<close> calls.
\<close>

definition pickPair ::
  "(nat \<Rightarrow> real) \<Rightarrow> nat \<Rightarrow> rank_state \<Rightarrow> ((error + unit) \<times> rank_state \<times> nat) option" where
  "pickPair rnd pos s =
     (if length (movies s) < 2 then Some (Inr (), s, pos)
      else case still_pair s of
        Some (l', r') \<Rightarrow>
          Some (renderPair (Some (Some l', Some r')),
                s\<lparr>currentPair := Some (Some l', Some r')\<rparr>, pos)
      | None \<Rightarrow>
          (case sample_keys rnd pos (ratings s) of
             None \<Rightarrow> None
           | Some (sampled, pos') \<Rightarrow>
               (case take 2 (sort_desc sampled) of
                  [a, b] \<Rightarrow>
                    Some (renderPair (Some (movieByTitle s (fst a), movieByTitle s (fst b))),
                          s\<lparr>currentPair := Some (movieByTitle s (fst a), movieByTitle s (fst b))\<rparr>,
                          pos')
                | _ \<Rightarrow> Some (Inr (), s, pos'))))"

definition updateVoteVisibility ::
  "bool \<Rightarrow> bool \<Rightarrow> (nat \<Rightarrow> real) \<Rightarrow> nat \<Rightarrow> rank_state \<Rightarrow> ((error + unit) \<times> rank_state \<times> nat) option" where
  "updateVoteVisibility preservePair skipPickPair rnd pos s =
     (if \<not> (rankerConfirmed s \<and> 2 \<le> length (movies s)) then Some (Inr (), s, pos)
      else if skipPickPair then
        (case still_pair s of
           Some (l', r') \<Rightarrow>
             Some (renderPair (Some (Some l', Some r')),
                   s\<lparr>currentPair := Some (Some l', Some r')\<rparr>, pos)
         | None \<Rightarrow> Some (Inr (), s, pos))
      else if preservePair \<and> still_pair s \<noteq> None then
        (case still_pair s of
           Some (l', r') \<Rightarrow>
             Some (renderPair (Some (Some l', Some r')),
                   s\<lparr>currentPair := Some (Some l', Some r')\<rparr>, pos)
         | None \<Rightarrow> Some (Inr (), s, pos))
      else pickPair rnd pos (s\<lparr>currentPair := None\<rparr>))"

definition applyState ::
  "server_state option \<Rightarrow> bool \<Rightarrow> bool \<Rightarrow> (nat \<Rightarrow> real) \<Rightarrow> nat \<Rightarrow> rank_state \<Rightarrow>
   ((error + unit) \<times> rank_state \<times> nat) option" where
  "applyState state preservePair skipPickPair rnd pos s =
     (case state of
        None \<Rightarrow> Some (Inr (), s, pos)
      | Some st \<Rightarrow> updateVoteVisibility preservePair skipPickPair rnd pos (applyState_globals st s))"


section \<open>Group swipe session\<close>

text \<open>
  A participant's progress. The fields \<^verbatim>\<open>done\<close> and \<^verbatim>\<open>order\<close> are named \<open>done_flag\<close> and
  \<open>order_titles\<close>.
\<close>

record progress =
  idx :: nat
  done_flag :: bool
  order_titles :: "string list"

text \<open>
  A progress entry as the server sends it: \<open>raw_order\<close> is \<open>None\<close> when \<^verbatim>\<open>order\<close> is not an
  array.
\<close>

record raw_progress =
  raw_idx :: jsfield
  raw_done :: bool
  raw_order :: "string list option"

record swipe_server_state =
  ss_movies :: "movie list"
  ss_persons :: "string list"
  ss_likes :: "string \<Rightarrow> string list option"
  ss_matches :: "string list"
  ss_locked :: bool
  ss_progress :: "string \<Rightarrow> raw_progress option"

text \<open>
  The swipe globals. \<open>swipeMatches\<close> is a \<^verbatim>\<open>Set\<close> whose iteration order the script uses: a
  list without repetition in insertion order. \<open>seenMatches\<close> is a \<^verbatim>\<open>Set\<close> that is only
  tested for membership.
\<close>

record swipe_state =
  swipeSuggestionsMap :: "string \<Rightarrow> movie option"
  swipeSelectedMovies :: "movie list"
  swipeLikes :: "string \<Rightarrow> string list option"
  swipeMatches :: "string list"
  swipePersonCount :: nat
  swipePersons :: "string list"
  swipeCurrentPerson :: string
  swipeCurrentIndex :: nat
  swipeOrder :: "movie list"
  swipeCompleted :: bool
  swipeProgress :: "string \<Rightarrow> progress option"
  swipeLocked :: bool
  matchQueue :: "string list"
  seenMatches :: "string set"
  matchModalOpen :: bool

definition initial_swipe_state :: swipe_state where
  "initial_swipe_state =
     \<lparr>swipeSuggestionsMap = Map.empty, swipeSelectedMovies = [], swipeLikes = Map.empty,
      swipeMatches = [], swipePersonCount = 2, swipePersons = [], swipeCurrentPerson = ''p1'',
      swipeCurrentIndex = 0, swipeOrder = [], swipeCompleted = False,
      swipeProgress = Map.empty, swipeLocked = False, matchQueue = [], seenMatches = {},
      matchModalOpen = False\<rparr>"

text \<open>\<^verbatim>\<open>Set.prototype.add\<close> and \<^verbatim>\<open>new Set(array)\<close>\<close>

definition set_add :: "'a list \<Rightarrow> 'a \<Rightarrow> 'a list" where
  "set_add xs x = (if x \<in> set xs then xs else xs @ [x])"

definition new_Set :: "'a list \<Rightarrow> 'a list" where
  "new_Set arr = foldl set_add [] arr"

subsection \<open>Shuffling\<close>

text \<open>
  \<^verbatim>\<open>[a[i], a[j]] = [a[j], a[i]]\<close>. \<^verbatim>\<open>Math.random\<close> returns a number in \<open>[0, 1)\<close>, so the
  index \<^verbatim>\<open>Math.floor(Math.random() * (i + 1))\<close> is at most \<open>i\<close>; the theorems below state
  this range where they need it.
\<close>

definition swap :: "'a list \<Rightarrow> nat \<Rightarrow> nat \<Rightarrow> 'a list" where
  "swap a i j = a[i := a ! j, j := a ! i]"

fun shuffle_loop :: "(nat \<Rightarrow> real) \<Rightarrow> nat \<Rightarrow> 'a list \<Rightarrow> nat \<Rightarrow> 'a list \<times> nat" where
  "shuffle_loop rnd pos a 0 = (a, pos)"
| "shuffle_loop rnd pos a (Suc k) =
     shuffle_loop rnd (Suc pos) (swap a (Suc k) (nat \<lfloor>rnd pos * (real (Suc k) + 1)\<rfloor>)) k"

definition shuffleArray :: "(nat \<Rightarrow> real) \<Rightarrow> nat \<Rightarrow> 'a list \<Rightarrow> 'a list \<times> nat" where
  "shuffleArray rnd pos arr = shuffle_loop rnd pos arr (length arr - 1)"

definition randomOrderTitles :: "(nat \<Rightarrow> real) \<Rightarrow> nat \<Rightarrow> swipe_state \<Rightarrow> string list \<times> nat" where
  "randomOrderTitles rnd pos s = shuffleArray rnd pos (map title (swipeSelectedMovies s))"

definition getSwipeMovieByTitle :: "swipe_state \<Rightarrow> string \<Rightarrow> movie option" where
  "getSwipeMovieByTitle s t =
     (if t = [] then None
      else Some (case find (\<lambda>m. title m = t) (swipeSelectedMovies s) of
                   Some m \<Rightarrow> m
                 | None \<Rightarrow> \<lparr>title = t, display = t, image_name = [], imageAbsolute = [],
                            addedBy = [], source = []\<rparr>))"

definition titlesToMovieOrder :: "swipe_state \<Rightarrow> string list \<Rightarrow> movie list" where
  "titlesToMovieOrder s titles = List.map_filter (getSwipeMovieByTitle s) titles"

subsection \<open>Match notifications\<close>

definition showMatchModal :: "string \<Rightarrow> swipe_state \<Rightarrow> swipe_state" where
  "showMatchModal t s = s\<lparr>matchModalOpen := True, seenMatches := insert t (seenMatches s)\<rparr>"

definition processMatchQueue :: "swipe_state \<Rightarrow> swipe_state" where
  "processMatchQueue s =
     (if matchModalOpen s then s
      else case matchQueue s of
        [] \<Rightarrow> s
      | next # rest \<Rightarrow>
          (if next = [] then s\<lparr>matchQueue := rest\<rparr>
           else showMatchModal next (s\<lparr>matchQueue := rest\<rparr>)))"

definition enqueueMatchModal :: "string \<Rightarrow> swipe_state \<Rightarrow> swipe_state" where
  "enqueueMatchModal t s =
     (if t = [] \<or> t \<in> seenMatches s then s
      else processMatchQueue (s\<lparr>matchQueue := matchQueue s @ [t]\<rparr>))"

definition closeMatchModal :: "swipe_state \<Rightarrow> swipe_state" where
  "closeMatchModal s = processMatchQueue (s\<lparr>matchModalOpen := False\<rparr>)"

subsection \<open>Likes and dislikes\<close>

text \<open>The Like Set of a title: the voters in the array \<^verbatim>\<open>swipeLikes[title]\<close>, if there is one.\<close>

definition like_set :: "swipe_state \<Rightarrow> string \<Rightarrow> string set" where
  "like_set s t = (case swipeLikes s t of None \<Rightarrow> {} | Some l \<Rightarrow> set l)"


text \<open>
  \<^verbatim>\<open>persistSwipeState\<close>, which ends both functions, posts a copy of the globals to the
  server and changes none of them.
\<close>

definition recordSwipeLike :: "string \<Rightarrow> string \<Rightarrow> swipe_state \<Rightarrow> swipe_state" where
  "recordSwipeLike mv person s =
     (let l0 = (case swipeLikes s mv of None \<Rightarrow> [] | Some l \<Rightarrow> l);
          l1 = (if person \<in> set l0 then l0 else l0 @ [person]);
          s1 = s\<lparr>swipeLikes := (swipeLikes s)(mv \<mapsto> l1)\<rparr>
      in if swipePersonCount s \<le> length l1
         then enqueueMatchModal mv (s1\<lparr>swipeMatches := set_add (swipeMatches s1) mv\<rparr>)
         else s1)"

definition recordSwipeDislike :: "string \<Rightarrow> string \<Rightarrow> swipe_state \<Rightarrow> swipe_state" where
  "recordSwipeDislike mv person s =
     (case swipeLikes s mv of
        None \<Rightarrow> s
      | Some l \<Rightarrow> s\<lparr>swipeLikes := (swipeLikes s)(mv \<mapsto> filter (\<lambda>p. p \<noteq> person) l)\<rparr>)"

subsection \<open>Progress\<close>

fun reset_persons ::
  "(nat \<Rightarrow> real) \<Rightarrow> nat \<Rightarrow> string list \<Rightarrow> string list \<Rightarrow> (string \<Rightarrow> progress option) \<Rightarrow>
   (string \<Rightarrow> progress option) \<times> nat" where
  "reset_persons rnd pos titles [] prog = (prog, pos)"
| "reset_persons rnd pos titles (p # ps) prog =
     (case shuffleArray rnd pos titles of
        (ord, pos') \<Rightarrow>
          reset_persons rnd pos' titles ps
            (prog(p \<mapsto> \<lparr>idx = 0, done_flag = False, order_titles = ord\<rparr>)))"

definition resetSwipeProgressAll :: "(nat \<Rightarrow> real) \<Rightarrow> nat \<Rightarrow> swipe_state \<Rightarrow> swipe_state \<times> nat" where
  "resetSwipeProgressAll rnd pos s =
     (case reset_persons rnd pos (map title (swipeSelectedMovies s)) (swipePersons s) Map.empty of
        (prog, p1) \<Rightarrow>
          (case (case prog (swipeCurrentPerson s) of
                   Some c \<Rightarrow> (c, p1)
                 | None \<Rightarrow> (case randomOrderTitles rnd p1 s of
                              (ord, p) \<Rightarrow> (\<lparr>idx = 0, done_flag = False, order_titles = ord\<rparr>, p))) of
             (current, p2) \<Rightarrow>
               (let ordm = titlesToMovieOrder s (order_titles current)
                in (s\<lparr>swipeProgress := prog, swipeOrder := ordm,
                      swipeCurrentIndex := idx current,
                      swipeCompleted := (done_flag current \<or> ordm = [])\<rparr>, p2))))"

definition saveSwipeProgress :: "(nat \<Rightarrow> real) \<Rightarrow> nat \<Rightarrow> string \<Rightarrow> swipe_state \<Rightarrow> swipe_state \<times> nat" where
  "saveSwipeProgress rnd pos person s =
     (if person = [] then (s, pos)
      else let orderTitles = map title (swipeOrder s);
               fresh = (case swipeProgress s person of
                          None \<Rightarrow> True
                        | Some st \<Rightarrow> length (order_titles st) \<noteq> length (swipeSelectedMovies s));
               pos' = (if fresh \<and> orderTitles = [] then snd (randomOrderTitles rnd pos s) else pos)
           in (s\<lparr>swipeProgress := (swipeProgress s)(person \<mapsto>
                    \<lparr>idx = min (swipeCurrentIndex s) (length orderTitles),
                     done_flag = swipeCompleted s, order_titles = orderTitles\<rparr>)\<rparr>, pos'))"

definition applySwipeProgress :: "(nat \<Rightarrow> real) \<Rightarrow> nat \<Rightarrow> string \<Rightarrow> swipe_state \<Rightarrow> swipe_state \<times> nat" where
  "applySwipeProgress rnd pos person s =
     (if person = [] then (s, pos)
      else case (case swipeProgress s person of
                   None \<Rightarrow> None
                 | Some st \<Rightarrow> if order_titles st = [] then None else Some st) of
        Some st \<Rightarrow>
          (let ordm = titlesToMovieOrder s (order_titles st);
               cur = min (idx st) (length ordm)
           in (s\<lparr>swipeOrder := ordm, swipeCurrentIndex := cur,
                 swipeCompleted := (done_flag st \<or> ordm = [] \<or> length ordm \<le> cur)\<rparr>, pos))
      | None \<Rightarrow>
          (case randomOrderTitles rnd pos s of
             (ord, pos') \<Rightarrow>
               (let ordm = titlesToMovieOrder s ord
                in (s\<lparr>swipeProgress := (swipeProgress s)(person \<mapsto>
                         \<lparr>idx = 0, done_flag = False, order_titles = ord\<rparr>),
                      swipeOrder := ordm, swipeCurrentIndex := 0,
                      swipeCompleted := (ordm = [])\<rparr>, pos'))))"

text \<open>
  The fallback of \<^verbatim>\<open>sendSwipeDecision\<close> when the request to the server fails: the decision
  is recorded locally and the cursor advances.
\<close>

definition local_decision ::
  "(nat \<Rightarrow> real) \<Rightarrow> nat \<Rightarrow> bool \<Rightarrow> string \<Rightarrow> string \<Rightarrow> swipe_state \<Rightarrow> swipe_state \<times> nat" where
  "local_decision rnd pos like t person s =
     (let s1 = (if like then recordSwipeLike t person s else recordSwipeDislike t person s);
          cur = min (swipeCurrentIndex s1 + 1) (length (swipeOrder s1));
          s2 = s1\<lparr>swipeCurrentIndex := cur, swipeCompleted := (length (swipeOrder s1) \<le> cur)\<rparr>
      in saveSwipeProgress rnd pos person s2)"

subsection \<open>Editing the list and starting a session\<close>

text \<open>\<^verbatim>\<open>swipeSuggestionsMap[displayTitle] || { title: displayTitle }\<close>\<close>

definition suggestion_info :: "swipe_state \<Rightarrow> string \<Rightarrow> movie" where
  "suggestion_info s displayTitle =
     (case swipeSuggestionsMap s displayTitle of
        Some i \<Rightarrow> i
      | None \<Rightarrow> \<lparr>title = displayTitle, display = [], image_name = [],
                 imageAbsolute = [], addedBy = [], source = []\<rparr>)"

definition addSwipeMovie :: "(nat \<Rightarrow> real) \<Rightarrow> nat \<Rightarrow> string \<Rightarrow> swipe_state \<Rightarrow> swipe_state \<times> nat" where
  "addSwipeMovie rnd pos displayTitle s =
     (if displayTitle = [] then (s, pos)
      else let info = suggestion_info s displayTitle
           in if find (\<lambda>m. title m = title info) (swipeSelectedMovies s) \<noteq> None then (s, pos)
              else let movieObj =
                         \<lparr>title = title info,
                          display = (if display info \<noteq> [] then display info else displayTitle),
                          image_name = image_name info,
                          imageAbsolute = (if image_name info \<noteq> [] \<and> is_http (image_name info)
                                           then image_name info else []),
                          addedBy = swipeCurrentPerson s, source = ''manual''\<rparr>
                   in resetSwipeProgressAll rnd pos
                        (s\<lparr>swipeSelectedMovies := swipeSelectedMovies s @ [movieObj],
                           swipeLikes := (swipeLikes s)(title info \<mapsto>
                              (case swipeLikes s (title info) of None \<Rightarrow> [] | Some l \<Rightarrow> l))\<rparr>))"

definition removeSwipeMovie :: "(nat \<Rightarrow> real) \<Rightarrow> nat \<Rightarrow> string \<Rightarrow> swipe_state \<Rightarrow> swipe_state \<times> nat" where
  "removeSwipeMovie rnd pos t s =
     resetSwipeProgressAll rnd pos
       (s\<lparr>swipeSelectedMovies := filter (\<lambda>m. title m \<noteq> t) (swipeSelectedMovies s),
          swipeLikes := (swipeLikes s)(t := None),
          swipeMatches := filter (\<lambda>m. m \<noteq> t) (swipeMatches s)\<rparr>)"

definition performClearSwipeList :: "(nat \<Rightarrow> real) \<Rightarrow> nat \<Rightarrow> swipe_state \<Rightarrow> swipe_state \<times> nat" where
  "performClearSwipeList rnd pos s =
     resetSwipeProgressAll rnd pos
       (s\<lparr>swipeSelectedMovies := [], swipeOrder := [], swipeLikes := Map.empty,
          swipeMatches := [], swipeLocked := False\<rparr>)"

definition confirmSwipeSetup :: "(nat \<Rightarrow> real) \<Rightarrow> nat \<Rightarrow> swipe_state \<Rightarrow> swipe_state \<times> nat" where
  "confirmSwipeSetup rnd pos s =
     (case resetSwipeProgressAll rnd pos (s\<lparr>swipeLikes := Map.empty, swipeMatches := []\<rparr>) of
        (s1, p1) \<Rightarrow>
          (case applySwipeProgress rnd p1 (swipeCurrentPerson s1) s1 of
             (s2, p2) \<Rightarrow> (s2\<lparr>swipeLocked := True\<rparr>, p2)))"

subsection \<open>Applying the state sent by the server\<close>

text \<open>The body of the \<^verbatim>\<open>forEach\<close> callback of \<^verbatim>\<open>normalizeSwipeProgress\<close>, for one person.\<close>

definition normalize_entry ::
  "(nat \<Rightarrow> real) \<Rightarrow> nat \<Rightarrow> swipe_state \<Rightarrow> raw_progress \<Rightarrow> string list \<Rightarrow> progress \<times> nat" where
  "normalize_entry rnd pos s st titles =
     (let order0 = (case raw_order st of
                      None \<Rightarrow> []
                    | Some ord \<Rightarrow> filter (\<lambda>t. t \<in> set titles) ord);
          missing = filter (\<lambda>t. t \<notin> set order0) titles
      in case (if missing \<noteq> []
               then (case shuffleArray rnd pos missing of (sh, q) \<Rightarrow> (order0 @ sh, q))
               else (order0, pos)) of
           (order1, p1) \<Rightarrow>
             (case (if order1 = [] then randomOrderTitles rnd p1 s else (order1, p1)) of
                (order2, p2) \<Rightarrow>
                  (let i = nat (clamp (parseInt_or0 (raw_idx st)) 0 (int (length order2)))
                   in (\<lparr>idx = i, done_flag = (raw_done st \<or> length order2 \<le> i),
                        order_titles = order2\<rparr>, p2))))"

fun normalize_persons ::
  "(nat \<Rightarrow> real) \<Rightarrow> nat \<Rightarrow> swipe_state \<Rightarrow> (string \<Rightarrow> raw_progress option) \<Rightarrow> string list \<Rightarrow>
   string list \<Rightarrow> (string \<Rightarrow> progress option) \<Rightarrow> (string \<Rightarrow> progress option) \<times> nat" where
  "normalize_persons rnd pos s progress titles [] normalized = (normalized, pos)"
| "normalize_persons rnd pos s progress titles (p # ps) normalized =
     (case normalize_entry rnd pos s
             (case progress p of
                None \<Rightarrow> \<lparr>raw_idx = Nullish, raw_done = False, raw_order = None\<rparr>
              | Some r \<Rightarrow> r) titles of
        (entry, p2) \<Rightarrow> normalize_persons rnd p2 s progress titles ps (normalized(p \<mapsto> entry)))"

definition normalizeSwipeProgress ::
  "(nat \<Rightarrow> real) \<Rightarrow> nat \<Rightarrow> swipe_state \<Rightarrow> (string \<Rightarrow> raw_progress option) \<Rightarrow> string list \<Rightarrow>
   string list \<Rightarrow> (string \<Rightarrow> progress option) \<times> nat" where
  "normalizeSwipeProgress rnd pos s progress ps titles =
     normalize_persons rnd pos s progress titles ps Map.empty"

definition applySwipeStateFromServer ::
  "string \<Rightarrow> (nat \<Rightarrow> real) \<Rightarrow> nat \<Rightarrow> swipe_server_state \<Rightarrow> swipe_state \<Rightarrow> swipe_state \<times> nat" where
  "applySwipeStateFromServer base rnd pos st s =
     (let prevMatches = swipeMatches s;
          ps = (if ss_persons st \<noteq> [] then ss_persons st
                else if swipePersons s \<noteq> [] then swipePersons s else [''p1'', ''p2'']);
          ms = new_Set (ss_matches st);
          s1 = s\<lparr>swipeSelectedMovies := map (normalizeMovieImage base) (ss_movies st),
                 swipePersons := ps, swipePersonCount := length ps,
                 swipeLikes := ss_likes st, swipeMatches := ms\<rparr>;
          s2 = foldl (\<lambda>acc m. if m \<in> set prevMatches then acc else enqueueMatchModal m acc) s1 ms;
          s3 = s2\<lparr>seenMatches := seenMatches s2 \<union> set ms, swipeLocked := ss_locked st\<rparr>;
          titles = map title (swipeSelectedMovies s3)
      in case normalizeSwipeProgress rnd pos s3 (ss_progress st) ps titles of
           (prog, p1) \<Rightarrow>
             (let s4 = s3\<lparr>swipeProgress := prog\<rparr>;
                  s5 = (if swipeCurrentPerson s4 \<in> set ps then s4
                        else s4\<lparr>swipeCurrentPerson := (if hd ps \<noteq> [] then hd ps else ''p1'')\<rparr>)
              in applySwipeProgress rnd p1 (swipeCurrentPerson s5) s5))"


section \<open>Properties the claims speak of\<close>

text \<open>\<^verbatim>\<open>Math.random\<close> returns numbers in \<open>[0, 1)\<close>.\<close>

definition unit_draws :: "(nat \<Rightarrow> real) \<Rightarrow> bool" where
  "unit_draws rnd = (\<forall>k. 0 \<le> rnd k \<and> rnd k < 1)"

text \<open>
  A progress entry right after a reset: cursor 0, not done, and an order that is a
  permutation of the given titles.
\<close>

definition fresh_progress :: "string list \<Rightarrow> progress option \<Rightarrow> bool" where
  "fresh_progress titles pr =
     (case pr of None \<Rightarrow> False
      | Some st \<Rightarrow> idx st = 0 \<and> \<not> done_flag st \<and> mset (order_titles st) = mset titles)"

text \<open>
  A progress entry as the data model describes it: the order is a permutation of the
  given titles and the cursor is an index from 0 to the length of the order.
\<close>

definition valid_progress :: "string list \<Rightarrow> progress option \<Rightarrow> bool" where
  "valid_progress titles pr =
     (case pr of None \<Rightarrow> False
      | Some st \<Rightarrow> mset (order_titles st) = mset titles \<and> idx st \<le> length (order_titles st))"

text \<open>The order of a progress entry sent by the server names no title twice.\<close>

definition raw_order_distinct :: "raw_progress option \<Rightarrow> bool" where
  "raw_order_distinct r =
     (case r of None \<Rightarrow> True
      | Some st \<Rightarrow> (case raw_order st of None \<Rightarrow> True | Some ord \<Rightarrow> distinct ord))"




section \<open>Example states\<close>

definition mk_movie :: "string \<Rightarrow> movie" where
  "mk_movie t = \<lparr>title = t, display = [], image_name = [], imageAbsolute = [], addedBy = [],
                 source = ''manual''\<rparr>"

text \<open>A source of draws that always returns one quarter.\<close>

definition quarter :: "nat \<Rightarrow> real" where
  "quarter k = 1 / 4"

definition locked_session :: swipe_state where
  "locked_session =
     initial_swipe_state\<lparr>swipeSelectedMovies := [mk_movie ''X''],
       swipePersons := [''p1'', ''p2''], swipeLocked := True,
       swipeProgress := [''p1'' \<mapsto> \<lparr>idx = 0, done_flag = False, order_titles = [''X'']\<rparr>,
                         ''p2'' \<mapsto> \<lparr>idx = 0, done_flag = False, order_titles = [''X'']\<rparr>],
       swipeOrder := [mk_movie ''X'']\<rparr>"


definition modal_open_session :: swipe_state where
  "modal_open_session =
     initial_swipe_state\<lparr>swipeSelectedMovies := [mk_movie ''X'', mk_movie ''Y''],
       swipePersons := [''p1'', ''p2''], swipePersonCount := 2,
       swipeLikes := [''X'' \<mapsto> [''p1''], ''Y'' \<mapsto> [''p1'', ''p2'']],
       swipeMatches := [''Y''], seenMatches := {''Y''}, matchModalOpen := True\<rparr>"

definition duplicate_order_reply :: swipe_server_state where
  "duplicate_order_reply =
     \<lparr>ss_movies = [mk_movie ''A''], ss_persons = [''p1'', ''p2''], ss_likes = Map.empty,
      ss_matches = [], ss_locked = True,
      ss_progress = [''p1'' \<mapsto> \<lparr>raw_idx = Number 0, raw_done = False,
                                 raw_order = Some [''A'', ''A'']\<rparr>]\<rparr>"

definition rated :: "real \<Rightarrow> real \<Rightarrow> rating" where
  "rated m sg = \<lparr>ts_mu = m, ts_sigma = sg, games = 0, wins = 0\<rparr>"

definition two_movies_state :: rank_state where
  "two_movies_state =
     initial_rank_state\<lparr>movies := [mk_movie ''A'', mk_movie ''B''],
       movieByTitle := movie_map [mk_movie ''A'', mk_movie ''B''],
       ratings := [(''A'', rated 1500 400), (''B'', rated 1600 400)],
       rankerConfirmed := True\<rparr>"



definition sigma_fallback_reply :: server_state where
  "sigma_fallback_reply =
     \<lparr>st_movies = [mk_movie ''A''], st_tsMu = Nullish, st_tsSigma = Number 0,
      st_ratings = [(''A'', empty_entry\<lparr>raw_ts_sigma := NotANumber\<rparr>)],
      st_personCount = None, st_pairCoverage = None, st_pairCoveragePerPerson = Map.empty,
      st_rankerConfirmed = False\<rparr>"

definition no_coverage_reply :: server_state where
  "no_coverage_reply =
     \<lparr>st_movies = [mk_movie ''A'', mk_movie ''B''], st_tsMu = Nullish, st_tsSigma = Nullish,
      st_ratings = [], st_personCount = Some 1, st_pairCoverage = None,
      st_pairCoveragePerPerson = Map.empty, st_rankerConfirmed = False\<rparr>"

definition partial_coverage_reply :: server_state where
  "partial_coverage_reply =
     \<lparr>st_movies = [mk_movie ''A'', mk_movie ''B'', mk_movie ''C''], st_tsMu = Nullish,
      st_tsSigma = Nullish, st_ratings = [], st_personCount = Some 1,
      st_pairCoverage = Some \<lparr>raw_coveredPairs = None, raw_totalPairs = None\<rparr>,
      st_pairCoveragePerPerson = Map.empty, st_rankerConfirmed = False\<rparr>"

definition stale_rating_reply :: server_state where
  "stale_rating_reply =
     \<lparr>st_movies = [mk_movie ''A'', mk_movie ''B''], st_tsMu = Nullish, st_tsSigma = Nullish,
      st_ratings = [(''A'', empty_entry), (''B'', empty_entry),
                    (''C'', empty_entry\<lparr>raw_ts_mu := Number 9999\<rparr>)],
      st_personCount = Some 1, st_pairCoverage = None, st_pairCoveragePerPerson = Map.empty,
      st_rankerConfirmed = True\<rparr>"



section \<open>Likes, dislikes and matches\<close>


text \<open>The local fallback of a dislike: the Match Set stays, the voter leaves the Like Set.\<close>

lemma saveSwipeProgress_frame:
  "swipeLikes (fst (saveSwipeProgress rnd pos person s)) = swipeLikes s \<and>
   swipeMatches (fst (saveSwipeProgress rnd pos person s)) = swipeMatches s"
  by (simp add: saveSwipeProgress_def Let_def)

lemma local_dislike_keeps_matches:
  "swipeMatches (fst (local_decision rnd pos False t person s)) = swipeMatches s \<and>
   like_set (fst (local_decision rnd pos False t person s)) t = like_set s t - {person}"
  by (auto simp: local_decision_def Let_def saveSwipeProgress_frame like_set_def
      recordSwipeDislike_def split: option.splits)

text \<open>
  C4: a dislike removes the voter from the Like Set of the title and changes nothing else:
  the Like Sets of the other titles stay, every other global stays, and so the Match Set
  is the one from before (a title in it remains in it).
\<close>

theorem recordSwipeDislike_removes_voter_only:
  "like_set (recordSwipeDislike mv person s) mv = like_set s mv - {person} \<and>
   swipeLikes (recordSwipeDislike mv person s) =
     (swipeLikes s)(mv := swipeLikes (recordSwipeDislike mv person s) mv) \<and>
   recordSwipeDislike mv person s =
     s\<lparr>swipeLikes := swipeLikes (recordSwipeDislike mv person s)\<rparr> \<and>
   swipeMatches (recordSwipeDislike mv person s) = swipeMatches s"
  by (auto simp: recordSwipeDislike_def like_set_def split: option.splits)



section \<open>Match notifications\<close>

lemma processMatchQueue_count:
  "count_list (matchQueue (processMatchQueue s)) t \<le> count_list (matchQueue s) t \<and>
   seenMatches s \<subseteq> seenMatches (processMatchQueue s)"
  by (auto simp: processMatchQueue_def showMatchModal_def split: list.splits)

lemma enqueue_seen_title:
  "t \<in> seenMatches s \<Longrightarrow>
   count_list (matchQueue (enqueueMatchModal m s)) t \<le> count_list (matchQueue s) t \<and>
   t \<in> seenMatches (enqueueMatchModal m s)"
proof (cases "m = t")
  case True
  assume "t \<in> seenMatches s"
  then show ?thesis using True by (simp add: enqueueMatchModal_def)
next
  case False
  assume seen: "t \<in> seenMatches s"
  let ?s1 = "s\<lparr>matchQueue := matchQueue s @ [m]\<rparr>"
  have "count_list (matchQueue ?s1) t = count_list (matchQueue s) t" using False by simp
  moreover have "t \<in> seenMatches ?s1" using seen by simp
  ultimately show ?thesis
    using processMatchQueue_count[of ?s1 t] seen
    by (auto simp: enqueueMatchModal_def)
qed

text \<open>
  Once a title is in the seen set, a like does not put it into the queue again, and it
  stays in the seen set.
\<close>

lemma seen_title_not_enqueued_by_like:
  "t \<in> seenMatches s \<Longrightarrow>
   count_list (matchQueue (recordSwipeLike mv person s)) t \<le> count_list (matchQueue s) t \<and>
   t \<in> seenMatches (recordSwipeLike mv person s)"
proof -
  assume seen: "t \<in> seenMatches s"
  define l1 where "l1 = (let l0 = (case swipeLikes s mv of None \<Rightarrow> [] | Some l \<Rightarrow> l)
                         in if person \<in> set l0 then l0 else l0 @ [person])"
  define s2 where "s2 = s\<lparr>swipeLikes := (swipeLikes s)(mv \<mapsto> l1),
                          swipeMatches := set_add (swipeMatches s) mv\<rparr>"
  have "t \<in> seenMatches s2" "matchQueue s2 = matchQueue s" using seen by (simp_all add: s2_def)
  then have "count_list (matchQueue (enqueueMatchModal mv s2)) t \<le> count_list (matchQueue s) t \<and>
             t \<in> seenMatches (enqueueMatchModal mv s2)"
    using enqueue_seen_title[of t s2 mv] by simp
  then show ?thesis using seen
    by (auto simp: recordSwipeLike_def Let_def l1_def s2_def)
qed

lemma enqueue_fold_seen_title:
  "t \<in> seenMatches s \<Longrightarrow>
   count_list (matchQueue (foldl (\<lambda>acc m. if m \<in> P then acc else enqueueMatchModal m acc) s ms)) t
     \<le> count_list (matchQueue s) t \<and>
   t \<in> seenMatches (foldl (\<lambda>acc m. if m \<in> P then acc else enqueueMatchModal m acc) s ms)"
proof (induction ms arbitrary: s)
  case Nil
  then show ?case by simp
next
  case (Cons m ms)
  let ?s' = "if m \<in> P then s else enqueueMatchModal m s"
  have step: "count_list (matchQueue ?s') t \<le> count_list (matchQueue s) t \<and> t \<in> seenMatches ?s'"
    using enqueue_seen_title[OF Cons.prems, of m] Cons.prems by simp
  then have "count_list (matchQueue (foldl (\<lambda>acc m. if m \<in> P then acc else enqueueMatchModal m acc) ?s' ms)) t
     \<le> count_list (matchQueue ?s') t \<and>
     t \<in> seenMatches (foldl (\<lambda>acc m. if m \<in> P then acc else enqueueMatchModal m acc) ?s' ms)"
    using Cons.IH[of ?s'] by blast
  then show ?case using step by simp
qed

lemma applySwipeProgress_queue:
  "matchQueue (fst (applySwipeProgress rnd pos person s)) = matchQueue s \<and>
   seenMatches (fst (applySwipeProgress rnd pos person s)) = seenMatches s"
  by (simp add: applySwipeProgress_def Let_def split: option.splits prod.splits)

text \<open>The same for a state sent by the server.\<close>

lemma seen_title_not_enqueued_by_server_state:
  assumes "t \<in> seenMatches s"
  shows "count_list (matchQueue (fst (applySwipeStateFromServer base rnd pos st s))) t
           \<le> count_list (matchQueue s) t \<and>
         t \<in> seenMatches (fst (applySwipeStateFromServer base rnd pos st s))"
proof -
  define ps where "ps = (if ss_persons st \<noteq> [] then ss_persons st
                else if swipePersons s \<noteq> [] then swipePersons s else [''p1'', ''p2''])"
  define s1 where "s1 = s\<lparr>swipeSelectedMovies := map (normalizeMovieImage base) (ss_movies st),
                 swipePersons := ps, swipePersonCount := length ps,
                 swipeLikes := ss_likes st, swipeMatches := new_Set (ss_matches st)\<rparr>"
  define s2 where "s2 = foldl (\<lambda>acc m. if m \<in> set (swipeMatches s) then acc else enqueueMatchModal m acc)
                          s1 (new_Set (ss_matches st))"
  have "t \<in> seenMatches s1" "matchQueue s1 = matchQueue s" using assms by (simp_all add: s1_def)
  then have s2: "count_list (matchQueue s2) t \<le> count_list (matchQueue s) t \<and> t \<in> seenMatches s2"
    using enqueue_fold_seen_title[of t s1 "set (swipeMatches s)" "new_Set (ss_matches st)"]
    by (simp add: s2_def)
  show ?thesis
    using s2
    by (simp add: applySwipeStateFromServer_def Let_def applySwipeProgress_queue
        ps_def[symmetric] s1_def[symmetric] s2_def[symmetric] split: prod.splits)
qed

text \<open>
  C9: the script marks a title as seen when its notification is shown, not when it is
  queued. While another notification is open, two likes that reach the participant count
  queue the same title twice, and closing the open notification twice shows it twice.
\<close>

theorem recordSwipeLike_enqueues_twice:
  "''X'' \<notin> seenMatches modal_open_session \<and>
   matchQueue (recordSwipeLike ''X'' ''p2'' modal_open_session) = [''X''] \<and>
   matchQueue (recordSwipeLike ''X'' ''p1'' (recordSwipeLike ''X'' ''p2'' modal_open_session))
     = [''X'', ''X''] \<and>
   ''X'' \<in> seenMatches (closeMatchModal
      (recordSwipeLike ''X'' ''p1'' (recordSwipeLike ''X'' ''p2'' modal_open_session))) \<and>
   matchQueue (closeMatchModal
      (recordSwipeLike ''X'' ''p1'' (recordSwipeLike ''X'' ''p2'' modal_open_session))) = [''X''] \<and>
   matchModalOpen (closeMatchModal (closeMatchModal
      (recordSwipeLike ''X'' ''p1'' (recordSwipeLike ''X'' ''p2'' modal_open_session)))) \<and>
   matchQueue (closeMatchModal (closeMatchModal
      (recordSwipeLike ''X'' ''p1'' (recordSwipeLike ''X'' ''p2'' modal_open_session)))) = []"
  by (simp add: recordSwipeLike_def modal_open_session_def initial_swipe_state_def Let_def
      set_add_def enqueueMatchModal_def processMatchQueue_def showMatchModal_def closeMatchModal_def)

section \<open>Shuffling and progress\<close>

lemma floor_index_le:
  assumes "0 \<le> u" "u < 1"
  shows "nat \<lfloor>u * (real (Suc k) + 1)\<rfloor> \<le> Suc k"
proof -
  have "u * (real (Suc k) + 1) < real (Suc k) + 1"
    using assms by (simp add: mult_less_cancel_right2)
  then have "\<lfloor>u * (real (Suc k) + 1)\<rfloor> < int (Suc k) + 1"
    by (simp add: floor_less_iff)
  then show ?thesis by linarith
qed

lemma shuffle_loop_mset:
  "unit_draws rnd \<Longrightarrow> k < length a \<Longrightarrow> mset (fst (shuffle_loop rnd pos a k)) = mset a"
proof (induction k arbitrary: a pos)
  case 0
  then show ?case by simp
next
  case (Suc k)
  let ?j = "nat \<lfloor>rnd pos * (real (Suc k) + 1)\<rfloor>"
  have j: "?j \<le> Suc k" using Suc.prems(1) by (intro floor_index_le) (auto simp: unit_draws_def)
  have "mset (swap a (Suc k) ?j) = mset a"
    unfolding swap_def using Suc.prems(2) j by (simp add: mset_swap)
  moreover have "k < length (swap a (Suc k) ?j)"
    using Suc.prems(2) by (simp add: swap_def)
  ultimately show ?case using Suc.IH[OF Suc.prems(1), of "swap a (Suc k) ?j" "Suc pos"] by simp
qed

lemma shuffle_loop_pos: "snd (shuffle_loop rnd pos a k) = pos + k"
  by (induction k arbitrary: a pos) auto

lemma shuffleArray_mset: "unit_draws rnd \<Longrightarrow> mset (fst (shuffleArray rnd pos xs)) = mset xs"
  by (cases xs) (simp_all add: shuffleArray_def shuffle_loop_mset)

lemma reset_persons_other:
  "p \<notin> set ps \<Longrightarrow> fst (reset_persons rnd pos titles ps prog) p = prog p"
  by (induction ps arbitrary: pos prog) (auto split: prod.splits)

lemma reset_persons_fresh:
  "unit_draws rnd \<Longrightarrow> p \<in> set ps \<Longrightarrow>
   fresh_progress titles (fst (reset_persons rnd pos titles ps prog) p)"
proof (induction ps arbitrary: pos prog)
  case Nil
  then show ?case by simp
next
  case (Cons q ps)
  obtain ord pos' where sh: "shuffleArray rnd pos titles = (ord, pos')"
    by (cases "shuffleArray rnd pos titles")
  have ord: "mset ord = mset titles"
    using shuffleArray_mset[OF Cons.prems(1), of pos titles] sh by simp
  show ?case
  proof (cases "p \<in> set ps")
    case True
    then show ?thesis using Cons.IH[OF Cons.prems(1)] sh by simp
  next
    case False
    then have "p = q" using Cons.prems(2) by simp
    then show ?thesis using False sh ord
      by (simp add: reset_persons_other fresh_progress_def)
  qed
qed

lemma resetSwipeProgressAll_frame:
  "swipeSelectedMovies (fst (resetSwipeProgressAll rnd pos s)) = swipeSelectedMovies s \<and>
   swipeLikes (fst (resetSwipeProgressAll rnd pos s)) = swipeLikes s \<and>
   swipeMatches (fst (resetSwipeProgressAll rnd pos s)) = swipeMatches s \<and>
   swipeLocked (fst (resetSwipeProgressAll rnd pos s)) = swipeLocked s \<and>
   swipePersons (fst (resetSwipeProgressAll rnd pos s)) = swipePersons s \<and>
   swipeProgress (fst (resetSwipeProgressAll rnd pos s)) =
     fst (reset_persons rnd pos (map title (swipeSelectedMovies s)) (swipePersons s) Map.empty)"
  by (simp add: resetSwipeProgressAll_def Let_def split: prod.splits option.splits)

lemma resetSwipeProgressAll_fresh:
  "unit_draws rnd \<Longrightarrow> p \<in> set (swipePersons s) \<Longrightarrow>
   fresh_progress (map title (swipeSelectedMovies s))
     (swipeProgress (fst (resetSwipeProgressAll rnd pos s)) p)"
  by (simp add: resetSwipeProgressAll_frame reset_persons_fresh)

text \<open>Removing a title and clearing the list rebuild the progress of every participant.\<close>

lemma removeSwipeMovie_fresh:
  assumes "unit_draws rnd" "p \<in> set (swipePersons s)"
  shows "fresh_progress (map title (swipeSelectedMovies (fst (removeSwipeMovie rnd pos t s))))
           (swipeProgress (fst (removeSwipeMovie rnd pos t s)) p) \<and>
         t \<notin> set (swipeMatches (fst (removeSwipeMovie rnd pos t s))) \<and>
         like_set (fst (removeSwipeMovie rnd pos t s)) t = {}"
proof -
  let ?s1 = "s\<lparr>swipeSelectedMovies := filter (\<lambda>m. title m \<noteq> t) (swipeSelectedMovies s),
          swipeLikes := (swipeLikes s)(t := None),
          swipeMatches := filter (\<lambda>m. m \<noteq> t) (swipeMatches s)\<rparr>"
  have "p \<in> set (swipePersons ?s1)" using assms(2) by simp
  from resetSwipeProgressAll_fresh[OF assms(1) this, of pos]
  show ?thesis
    by (simp add: removeSwipeMovie_def resetSwipeProgressAll_frame like_set_def)
qed

lemma performClearSwipeList_fresh:
  assumes "unit_draws rnd" "p \<in> set (swipePersons s)"
  shows "fresh_progress [] (swipeProgress (fst (performClearSwipeList rnd pos s)) p)"
proof -
  let ?s1 = "s\<lparr>swipeSelectedMovies := [], swipeOrder := [], swipeLikes := Map.empty,
          swipeMatches := [], swipeLocked := False\<rparr>"
  have "p \<in> set (swipePersons ?s1)" using assms(2) by simp
  from resetSwipeProgressAll_fresh[OF assms(1) this, of pos]
  show ?thesis by (simp add: performClearSwipeList_def)
qed

text \<open>
  C5, as the script has it: \<^verbatim>\<open>addSwipeMovie\<close> never reads the locked flag and produces no
  error. It leaves the globals as they are when the title is empty or already in the
  list. Otherwise, locked or not, it appends the title to the list, keeps every Like Set,
  the Match Set and the locked flag, and resets the progress of every participant: cursor
  0, not done, a reshuffled order of the new titles.
\<close>

theorem addSwipeMovie_ignores_lock:
  "(displayTitle = [] \<or>
    find (\<lambda>m. title m = title (suggestion_info s displayTitle)) (swipeSelectedMovies s) \<noteq> None
    \<longrightarrow> addSwipeMovie rnd pos displayTitle s = (s, pos)) \<and>
   (unit_draws rnd \<and> displayTitle \<noteq> [] \<and>
    find (\<lambda>m. title m = title (suggestion_info s displayTitle)) (swipeSelectedMovies s) = None
    \<longrightarrow> map title (swipeSelectedMovies (fst (addSwipeMovie rnd pos displayTitle s))) =
          map title (swipeSelectedMovies s) @ [title (suggestion_info s displayTitle)] \<and>
        like_set (fst (addSwipeMovie rnd pos displayTitle s)) = like_set s \<and>
        swipeMatches (fst (addSwipeMovie rnd pos displayTitle s)) = swipeMatches s \<and>
        swipeLocked (fst (addSwipeMovie rnd pos displayTitle s)) = swipeLocked s \<and>
        (\<forall>p \<in> set (swipePersons s).
           fresh_progress (map title (swipeSelectedMovies s) @ [title (suggestion_info s displayTitle)])
             (swipeProgress (fst (addSwipeMovie rnd pos displayTitle s)) p)))"
proof (intro conjI impI)
  assume "displayTitle = [] \<or>
    find (\<lambda>m. title m = title (suggestion_info s displayTitle)) (swipeSelectedMovies s) \<noteq> None"
  then show "addSwipeMovie rnd pos displayTitle s = (s, pos)"
    by (auto simp: addSwipeMovie_def Let_def)
next
  assume a: "unit_draws rnd \<and> displayTitle \<noteq> [] \<and>
    find (\<lambda>m. title m = title (suggestion_info s displayTitle)) (swipeSelectedMovies s) = None"
  let ?info = "suggestion_info s displayTitle"
  define obj where "obj = \<lparr>title = title ?info,
      display = (if display ?info \<noteq> [] then display ?info else displayTitle),
      image_name = image_name ?info,
      imageAbsolute = (if image_name ?info \<noteq> [] \<and> is_http (image_name ?info)
                       then image_name ?info else []),
      addedBy = swipeCurrentPerson s, source = ''manual''\<rparr>"
  define s1 where "s1 = s\<lparr>swipeSelectedMovies := swipeSelectedMovies s @ [obj],
      swipeLikes := (swipeLikes s)(title ?info \<mapsto>
         (case swipeLikes s (title ?info) of None \<Rightarrow> [] | Some l \<Rightarrow> l))\<rparr>"
  have eq: "addSwipeMovie rnd pos displayTitle s = resetSwipeProgressAll rnd pos s1"
    using a by (simp add: addSwipeMovie_def Let_def s1_def obj_def)
  have t1: "map title (swipeSelectedMovies s1) = map title (swipeSelectedMovies s) @ [title ?info]"
    by (simp add: s1_def obj_def)
  show "map title (swipeSelectedMovies (fst (addSwipeMovie rnd pos displayTitle s))) =
          map title (swipeSelectedMovies s) @ [title ?info]"
    by (simp add: eq resetSwipeProgressAll_frame t1)
  show "like_set (fst (addSwipeMovie rnd pos displayTitle s)) = like_set s"
    by (auto simp: eq resetSwipeProgressAll_frame s1_def like_set_def fun_eq_iff split: option.splits)
  show "swipeMatches (fst (addSwipeMovie rnd pos displayTitle s)) = swipeMatches s"
    by (simp add: eq resetSwipeProgressAll_frame s1_def)
  show "swipeLocked (fst (addSwipeMovie rnd pos displayTitle s)) = swipeLocked s"
    by (simp add: eq resetSwipeProgressAll_frame s1_def)
  show "\<forall>p \<in> set (swipePersons s).
           fresh_progress (map title (swipeSelectedMovies s) @ [title ?info])
             (swipeProgress (fst (addSwipeMovie rnd pos displayTitle s)) p)"
  proof
    fix p assume "p \<in> set (swipePersons s)"
    then have "p \<in> set (swipePersons s1)" by (simp add: s1_def)
    from resetSwipeProgressAll_fresh[OF _ this, of rnd pos] a
    show "fresh_progress (map title (swipeSelectedMovies s) @ [title ?info])
             (swipeProgress (fst (addSwipeMovie rnd pos displayTitle s)) p)"
      by (simp add: eq t1)
  qed
qed

theorem addSwipeMovie_ignores_lock_witness:
  "swipeLocked locked_session \<and> unit_draws quarter \<and>
   map title (swipeSelectedMovies (fst (addSwipeMovie quarter 0 ''Y'' locked_session))) = [''X'', ''Y''] \<and>
   swipeLocked (fst (addSwipeMovie quarter 0 ''Y'' locked_session)) \<and>
   fresh_progress [''X'', ''Y'']
     (swipeProgress (fst (addSwipeMovie quarter 0 ''Y'' locked_session)) ''p2'')"
  using addSwipeMovie_ignores_lock[where displayTitle = "''Y''" and s = locked_session
      and rnd = quarter and pos = 0]
  by (simp add: locked_session_def initial_swipe_state_def suggestion_info_def mk_movie_def
      unit_draws_def quarter_def)

text \<open>
  C5 as stated fails: on a locked session the title is added and the progress of the
  participants is rebuilt.
\<close>

theorem addSwipeMovie_locked_counterexample:
  "swipeLocked locked_session \<and>
   addSwipeMovie quarter 0 ''Y'' locked_session \<noteq> (locked_session, 0) \<and>
   map title (swipeSelectedMovies (fst (addSwipeMovie quarter 0 ''Y'' locked_session))) = [''X'', ''Y''] \<and>
   map_option order_titles (swipeProgress (fst (addSwipeMovie quarter 0 ''Y'' locked_session)) ''p1'')
     = Some [''Y'', ''X'']"
  by (simp add: addSwipeMovie_def locked_session_def initial_swipe_state_def suggestion_info_def
      mk_movie_def resetSwipeProgressAll_def shuffleArray_def swap_def quarter_def Let_def
      titlesToMovieOrder_def List.map_filter_def getSwipeMovieByTitle_def is_http_def)

section \<open>Progress after a state sent by the server\<close>

lemma normalize_entry_idx:
  "idx (fst (normalize_entry rnd pos s st titles))
     \<le> length (order_titles (fst (normalize_entry rnd pos s st titles)))"
  by (auto simp: normalize_entry_def Let_def clamp_def split: prod.splits)

lemma distinct_split_mset:
  assumes "distinct titles" "distinct xs" "set xs \<subseteq> set titles"
  shows "mset xs + mset (filter (\<lambda>t. t \<notin> set xs) titles) = mset titles"
proof -
  have "mset xs = mset (filter (\<lambda>t. t \<in> set xs) titles)"
    using assms by (intro iffD1[OF set_eq_iff_mset_eq_distinct]) auto
  then show ?thesis by simp
qed

lemma normalize_entry_perm:
  assumes "unit_draws rnd" "distinct titles" "titles = map title (swipeSelectedMovies s)"
    and "case raw_order st of None \<Rightarrow> True | Some ord \<Rightarrow> distinct ord"
  shows "mset (order_titles (fst (normalize_entry rnd pos s st titles))) = mset titles"
proof -
  define order0 where "order0 = (case raw_order st of None \<Rightarrow> []
                    | Some ord \<Rightarrow> filter (\<lambda>t. t \<in> set titles) ord)"
  define missing where "missing = filter (\<lambda>t. t \<notin> set order0) titles"
  have d0: "distinct order0" "set order0 \<subseteq> set titles"
    using assms(4) by (auto simp: order0_def split: option.splits)
  have part: "mset order0 + mset missing = mset titles"
    unfolding missing_def using distinct_split_mset[OF assms(2) d0] .
  obtain order1 p1 where o1: "(if missing \<noteq> []
               then (case shuffleArray rnd pos missing of (sh, q) \<Rightarrow> (order0 @ sh, q))
               else (order0, pos)) = (order1, p1)"
    by (cases "(if missing \<noteq> []
               then (case shuffleArray rnd pos missing of (sh, q) \<Rightarrow> (order0 @ sh, q))
               else (order0, pos))")
  have m1: "mset order1 = mset titles"
  proof (cases "missing = []")
    case True
    then show ?thesis using o1 part by simp
  next
    case False
    then show ?thesis
      using o1 part shuffleArray_mset[OF assms(1), of pos missing]
      by (auto split: prod.splits)
  qed
  obtain order2 p2 where o2:
    "(if order1 = [] then randomOrderTitles rnd p1 s else (order1, p1)) = (order2, p2)"
    by (cases "(if order1 = [] then randomOrderTitles rnd p1 s else (order1, p1))")
  have m2: "mset order2 = mset titles"
  proof (cases "order1 = []")
    case True
    then have "titles = []" using m1 by simp
    then show ?thesis using o2 True assms(3) by (simp add: randomOrderTitles_def shuffleArray_def)
  next
    case False
    then show ?thesis using o2 m1 by simp
  qed
  have "order_titles (fst (normalize_entry rnd pos s st titles)) = order2"
    using o1 o2
    by (simp add: normalize_entry_def Let_def order0_def[symmetric] missing_def[symmetric]
        split del: if_split cong: if_cong)
  then show ?thesis using m2 by simp
qed

lemma normalize_persons_other:
  "p \<notin> set ps \<Longrightarrow> fst (normalize_persons rnd pos s progress titles ps normalized) p = normalized p"
  by (induction ps arbitrary: pos normalized) (auto split: prod.splits)

lemma normalize_persons_valid:
  assumes "unit_draws rnd" "distinct titles" "titles = map title (swipeSelectedMovies s)"
    and "raw_order_distinct (progress p)" "p \<in> set ps"
  shows "valid_progress titles (fst (normalize_persons rnd pos s progress titles ps normalized) p)"
  using assms(5)
proof (induction ps arbitrary: pos normalized)
  case Nil
  then show ?case by simp
next
  case (Cons q ps)
  define raw where "raw = (case progress q of
                None \<Rightarrow> \<lparr>raw_idx = Nullish, raw_done = False, raw_order = None\<rparr>
              | Some r \<Rightarrow> r)"
  obtain entry p2 where ne: "normalize_entry rnd pos s raw titles = (entry, p2)"
    by (cases "normalize_entry rnd pos s raw titles")
  show ?case
  proof (cases "p \<in> set ps")
    case True
    then show ?thesis using Cons.IH ne by (simp add: raw_def[symmetric])
  next
    case False
    then have pq: "p = q" using Cons.prems by simp
    have "case raw_order raw of None \<Rightarrow> True | Some ord \<Rightarrow> distinct ord"
      using assms(4) pq by (auto simp: raw_def raw_order_distinct_def split: option.splits)
    from normalize_entry_perm[OF assms(1,2,3) this, of pos] normalize_entry_idx[of rnd pos s raw titles]
    have "valid_progress titles (Some entry)" using ne by (simp add: valid_progress_def)
    then show ?thesis using False pq ne
      by (simp add: raw_def[symmetric] normalize_persons_other)
  qed
qed

lemma title_normalizeMovieImage: "title (normalizeMovieImage base m) = title m"
  by (simp add: normalizeMovieImage_def Let_def)

lemma applySwipeProgress_frame:
  "swipeSelectedMovies (fst (applySwipeProgress rnd pos person s)) = swipeSelectedMovies s \<and>
   swipePersons (fst (applySwipeProgress rnd pos person s)) = swipePersons s"
  by (simp add: applySwipeProgress_def Let_def split: option.splits prod.splits)

lemma applySwipeProgress_valid:
  assumes "unit_draws rnd"
    and "valid_progress (map title (swipeSelectedMovies s)) (swipeProgress s p)"
  shows "valid_progress (map title (swipeSelectedMovies s))
           (swipeProgress (fst (applySwipeProgress rnd pos person s)) p)"
proof -
  obtain ord q where sh: "randomOrderTitles rnd pos s = (ord, q)"
    by (cases "randomOrderTitles rnd pos s")
  have "mset ord = mset (map title (swipeSelectedMovies s))"
    using shuffleArray_mset[OF assms(1), of pos "map title (swipeSelectedMovies s)"] sh
    by (simp add: randomOrderTitles_def)
  then show ?thesis using assms(2) sh
    by (auto simp: applySwipeProgress_def Let_def valid_progress_def split: option.splits)
qed

text \<open>
  When the titles of the list are distinct and the order sent for a participant names no
  title twice, that participant's progress after applying the state is as the data model
  describes it.
\<close>

lemma applySwipeStateFromServer_valid:
  assumes "unit_draws rnd" "distinct (map title (ss_movies st))"
    and "raw_order_distinct (ss_progress st p)"
    and "p \<in> set (swipePersons (fst (applySwipeStateFromServer base rnd pos st s)))"
  shows "valid_progress
           (map title (swipeSelectedMovies (fst (applySwipeStateFromServer base rnd pos st s))))
           (swipeProgress (fst (applySwipeStateFromServer base rnd pos st s)) p)"
proof -
  define ps where "ps = (if ss_persons st \<noteq> [] then ss_persons st
                else if swipePersons s \<noteq> [] then swipePersons s else [''p1'', ''p2''])"
  define s1 where "s1 = s\<lparr>swipeSelectedMovies := map (normalizeMovieImage base) (ss_movies st),
                 swipePersons := ps, swipePersonCount := length ps,
                 swipeLikes := ss_likes st, swipeMatches := new_Set (ss_matches st)\<rparr>"
  define s2 where "s2 = foldl (\<lambda>acc m. if m \<in> set (swipeMatches s) then acc else enqueueMatchModal m acc)
                          s1 (new_Set (ss_matches st))"
  define s3 where "s3 = s2\<lparr>seenMatches := seenMatches s2 \<union> set (new_Set (ss_matches st)),
                          swipeLocked := ss_locked st\<rparr>"
  define titles where "titles = map title (swipeSelectedMovies s3)"
  have fold_frame: "swipeSelectedMovies (foldl (\<lambda>acc m. if m \<in> P then acc else enqueueMatchModal m acc) a ms)
        = swipeSelectedMovies a \<and>
      swipePersons (foldl (\<lambda>acc m. if m \<in> P then acc else enqueueMatchModal m acc) a ms)
        = swipePersons a" for P a ms
    by (induction ms arbitrary: a)
       (auto simp: enqueueMatchModal_def processMatchQueue_def showMatchModal_def split: list.splits)
  have t3: "titles = map title (ss_movies st)" "swipePersons s3 = ps"
    by (simp_all add: titles_def s3_def s2_def fold_frame s1_def title_normalizeMovieImage comp_def)
  obtain prog p1 where np: "normalizeSwipeProgress rnd pos s3 (ss_progress st) ps titles = (prog, p1)"
    by (cases "normalizeSwipeProgress rnd pos s3 (ss_progress st) ps titles")
  define s5 where "s5 = (if swipeCurrentPerson (s3\<lparr>swipeProgress := prog\<rparr>) \<in> set ps
                         then s3\<lparr>swipeProgress := prog\<rparr>
                         else s3\<lparr>swipeProgress := prog,
                                 swipeCurrentPerson := (if hd ps \<noteq> [] then hd ps else ''p1'')\<rparr>)"
  have c3: "swipeCurrentPerson s3 = swipeCurrentPerson s2" by (simp add: s3_def)
  have titles2: "map title (swipeSelectedMovies s2) = titles" by (simp add: titles_def s3_def)
  have res: "fst (applySwipeStateFromServer base rnd pos st s)
               = fst (applySwipeProgress rnd p1 (swipeCurrentPerson s5) s5)"
    using np
    by (simp add: applySwipeStateFromServer_def Let_def ps_def[symmetric] s1_def[symmetric]
        s2_def[symmetric] s3_def[symmetric] titles2 s5_def c3
        split del: if_split cong: if_cong)
  have s5: "swipeSelectedMovies s5 = swipeSelectedMovies s3" "swipePersons s5 = ps"
       "swipeProgress s5 = prog"
    using t3 by (simp_all add: s5_def)
  have pin: "p \<in> set ps" using assms(4) by (simp add: res applySwipeProgress_frame s5)
  have dt: "distinct titles" using assms(2) t3 by simp
  have "valid_progress titles (prog p)"
    using normalize_persons_valid[where progress = "ss_progress st" and normalized = Map.empty
        and pos = pos, OF assms(1) dt titles_def assms(3) pin] np
    by (simp add: normalizeSwipeProgress_def)
  then have "valid_progress (map title (swipeSelectedMovies s5)) (swipeProgress s5 p)"
    by (simp add: s5 titles_def)
  from applySwipeProgress_valid[OF assms(1) this, of p1 "swipeCurrentPerson s5"]
  show ?thesis by (simp add: res applySwipeProgress_frame)
qed

text \<open>The same after a session start.\<close>

lemma confirmSwipeSetup_valid:
  assumes "unit_draws rnd" "p \<in> set (swipePersons s)"
  shows "valid_progress (map title (swipeSelectedMovies s))
           (swipeProgress (fst (confirmSwipeSetup rnd pos s)) p) \<and>
         swipeSelectedMovies (fst (confirmSwipeSetup rnd pos s)) = swipeSelectedMovies s"
proof -
  define s0 where "s0 = s\<lparr>swipeLikes := Map.empty, swipeMatches := []\<rparr>"
  obtain s1 p1 where r: "resetSwipeProgressAll rnd pos s0 = (s1, p1)"
    by (cases "resetSwipeProgressAll rnd pos s0")
  have f: "fresh_progress (map title (swipeSelectedMovies s)) (swipeProgress s1 p)"
    using resetSwipeProgressAll_fresh[OF assms(1), of p s0 pos] assms(2) r by (simp add: s0_def)
  have m1: "swipeSelectedMovies s1 = swipeSelectedMovies s"
    using resetSwipeProgressAll_frame[of rnd pos s0] r by (simp add: s0_def)
  have "valid_progress (map title (swipeSelectedMovies s1)) (swipeProgress s1 p)"
    using f by (auto simp: fresh_progress_def valid_progress_def m1 split: option.splits)
  from applySwipeProgress_valid[OF assms(1) this, of p1 "swipeCurrentPerson s1"]
  have v: "valid_progress (map title (swipeSelectedMovies s))
             (swipeProgress (fst (applySwipeProgress rnd p1 (swipeCurrentPerson s1) s1)) p)"
    by (simp add: m1)
  obtain s2 p2 where a: "applySwipeProgress rnd p1 (swipeCurrentPerson s1) s1 = (s2, p2)"
    by (cases "applySwipeProgress rnd p1 (swipeCurrentPerson s1) s1")
  have "swipeSelectedMovies s2 = swipeSelectedMovies s"
    using applySwipeProgress_frame[of rnd p1 "swipeCurrentPerson s1" s1] a m1 by simp
  then show ?thesis using r a v
    by (simp add: confirmSwipeSetup_def s0_def[symmetric])
qed

text \<open>
  C8: \<^verbatim>\<open>normalizeSwipeProgress\<close> drops unknown titles from the order the server sends and
  appends the missing ones, and keeps a title that the order names twice: the order of
  participant \<open>p1\<close> is then not a permutation of the one title of the list.
\<close>

theorem applySwipeStateFromServer_duplicate_order:
  "map title (swipeSelectedMovies
      (fst (applySwipeStateFromServer [] quarter 0 duplicate_order_reply initial_swipe_state))) = [''A''] \<and>
   map_option order_titles (swipeProgress
      (fst (applySwipeStateFromServer [] quarter 0 duplicate_order_reply initial_swipe_state)) ''p1'')
     = Some [''A'', ''A''] \<and>
   \<not> valid_progress [''A''] (swipeProgress
      (fst (applySwipeStateFromServer [] quarter 0 duplicate_order_reply initial_swipe_state)) ''p1'')"
  by (simp add: applySwipeStateFromServer_def duplicate_order_reply_def initial_swipe_state_def
      mk_movie_def normalizeMovieImage_def resolveMovieImage_def is_http_def is_http_or_data_def
      new_Set_def normalizeSwipeProgress_def normalize_entry_def Let_def clamp_def
      applySwipeProgress_def titlesToMovieOrder_def List.map_filter_def getSwipeMovieByTitle_def
      shuffleArray_def randomOrderTitles_def valid_progress_def)

section \<open>Beliefs of a loaded state\<close>

text \<open>Key order: a title that is an array index comes before the other titles.\<close>

lemma obj_set_index_key_first:
  "obj_set [(''Brazil'', x)] ''1917'' y = [(''1917'', y), (''Brazil'', x)] \<and>
   obj_set [(''1917'', y)] ''300'' z = [(''300'', z), (''1917'', y)] \<and>
   obj_set [(''1917'', y)] ''007'' z = [(''1917'', y), (''007'', z)]"
  by (simp add: obj_set_def obj_get_def is_array_index_def is_digit_def str_to_nat_def digit_val_def)

lemma ensureTsRating_floor:
  assumes "1 / 10000 \<le> sigma0 \<or>
           (case entry of None \<Rightarrow> True | Some e \<Rightarrow> raw_ts_sigma e \<noteq> NotANumber)"
  shows "1 / 10000 \<le> ts_sigma (ensureTsRating mu0 sigma0 entry)"
proof (cases entry)
  case None
  then show ?thesis by (simp add: ensureTsRating_def empty_entry_def)
next
  case (Some e)
  then show ?thesis using assms
    by (cases "raw_ts_sigma e") (auto simp: ensureTsRating_def)
qed

lemma set_obj_insert_index: "set (obj_insert_index k v obj) = insert (k, v) (set obj)"
  by (induction obj) (auto split: if_splits)

lemma set_obj_set: "set (obj_set obj k v) \<subseteq> insert (k, v) (set obj)"
  by (auto simp: obj_set_def set_obj_insert_index split: if_splits)

lemma foldl_obj_set_inv:
  assumes "\<And>acc x. set (step acc x) \<subseteq> insert (key x, f (key x)) (set acc)"
    and "\<forall>(t, e) \<in> set acc0. e = f t"
  shows "\<forall>(t, e) \<in> set (foldl step acc0 xs). e = f t"
  using assms(2)
proof (induction xs arbitrary: acc0)
  case Nil
  then show ?case by simp
next
  case (Cons x xs)
  have "\<forall>(t, e) \<in> set (step acc0 x). e = f t"
    using assms(1)[of acc0 x] Cons.prems by auto
  from Cons.IH[OF this] show ?case by simp
qed

lemma normalizedRatings_entries:
  "(t, e) \<in> set (normalizedRatings mu0 sigma0 ms incoming) \<Longrightarrow>
     e = ensureTsRating mu0 sigma0 (obj_get incoming t)"
proof -
  let ?f = "\<lambda>t. ensureTsRating mu0 sigma0 (obj_get incoming t)"
  let ?byMovie = "foldl (\<lambda>acc m. obj_set acc (title m) (?f (title m))) [] ms"
  have 1: "\<forall>(t, e) \<in> set ?byMovie. e = ?f t"
    by (rule foldl_obj_set_inv[where key = title]) (auto simp: set_obj_set)
  have 2: "\<forall>(t, e) \<in> set (foldl (\<lambda>acc t. if obj_get acc t = None then obj_set acc t (?f t) else acc)
             ?byMovie (map fst incoming)). e = ?f t"
  proof (rule foldl_obj_set_inv[where key = "\<lambda>t. t", OF _ 1])
    fix acc :: "(string \<times> rating) list" and x
    show "set (if obj_get acc x = None then obj_set acc x (?f x) else acc)
            \<subseteq> insert (x, ?f x) (set acc)"
      using set_obj_set[of acc x "?f x"] by (cases "obj_get acc x = None") auto
  qed
  assume "(t, e) \<in> set (normalizedRatings mu0 sigma0 ms incoming)"
  then show ?thesis using 2 by (auto simp: normalizedRatings_def Let_def)
qed

text \<open>
  Every belief of a loaded state has a sigma of at least 0.0001 when the base sigma in
  force is at least that, or when no incoming entry has a sigma that is not a number.
\<close>

lemma applyState_sigma_floor:
  assumes "(t, e) \<in> set (ratings (applyState_globals st s))"
    and "1 / 10000 \<le> TS_SIGMA (applyState_globals st s) \<or>
         list_all (\<lambda>(t, r). raw_ts_sigma r \<noteq> NotANumber) (st_ratings st)"
  shows "1 / 10000 \<le> ts_sigma e"
proof -
  let ?s' = "applyState_globals st s"
  have r: "ratings ?s' = normalizedRatings (TS_MU ?s') (TS_SIGMA ?s')
             (map (normalizeMovieImage (API_BASE s)) (st_movies st)) (st_ratings st)"
    by (simp add: applyState_globals_def Let_def)
  have e: "e = ensureTsRating (TS_MU ?s') (TS_SIGMA ?s') (obj_get (st_ratings st) t)"
    using assms(1) normalizedRatings_entries unfolding r by blast
  have "case obj_get (st_ratings st) t of None \<Rightarrow> True | Some r \<Rightarrow> raw_ts_sigma r \<noteq> NotANumber"
    if "list_all (\<lambda>(t, r). raw_ts_sigma r \<noteq> NotANumber) (st_ratings st)"
    using that by (auto simp: obj_get_def list_all_iff split: option.splits dest: map_of_SomeD)
  then show ?thesis unfolding e using assms(2) by (intro ensureTsRating_floor) blast
qed

text \<open>
  C6: \<^verbatim>\<open>ensureTsRating\<close> floors the sigma it parses, but when the sigma of an entry is not
  a number it falls back to the base sigma as it is, and \<^verbatim>\<open>applyState\<close> takes the base
  sigma from the state without a floor. A state with base sigma 0 and such an entry gives
  a belief whose sigma is 0.
\<close>

theorem applyState_sigma_below_floor:
  "map (\<lambda>(t, e). (t, ts_sigma e)) (ratings (applyState_globals sigma_fallback_reply initial_rank_state))
     = [(''A'', 0)] \<and>
   ts_sigma (ensureTsRating 1500 0 (Some (empty_entry\<lparr>raw_ts_sigma := NotANumber\<rparr>))) < 1 / 10000"
  by (simp add: applyState_globals_def sigma_fallback_reply_def initial_rank_state_def
      normalizedRatings_def obj_set_def obj_get_def ensureTsRating_def empty_entry_def mk_movie_def
      normalizeMovieImage_def Let_def)

section \<open>Coverage of a loaded state\<close>

text \<open>
  C7, as the script has it: when the state carries a coverage object without
  \<^verbatim>\<open>totalPairs\<close>, the snapshot has \<open>n(n - 1)/2\<close> total pairs for a list of \<open>n \<ge> 2\<close> movies;
  a \<^verbatim>\<open>totalPairs\<close> or \<^verbatim>\<open>coveredPairs\<close> that the state carries is taken as it is, with
  \<^verbatim>\<open>coveredPairs\<close> 0 when absent; and in every snapshot, overall and per person, the ratio
  is \<open>coveredPairs / totalPairs\<close>, and 0 when \<open>totalPairs\<close> is 0.
\<close>

theorem applyState_coverage_snapshot:
  "(st_pairCoverage st = Some rc \<and> raw_totalPairs rc = None \<and> 2 \<le> length (st_movies st) \<longrightarrow>
      totalPairs (pairCoverage (applyState_globals st s)) =
        real (length (st_movies st)) * (real (length (st_movies st)) - 1) / 2) \<and>
   (st_pairCoverage st = Some rc \<and> raw_totalPairs rc = Some t \<longrightarrow>
      totalPairs (pairCoverage (applyState_globals st s)) = t) \<and>
   (st_pairCoverage st = Some rc \<longrightarrow>
      coveredPairs (pairCoverage (applyState_globals st s)) =
        (case raw_coveredPairs rc of None \<Rightarrow> 0 | Some c \<Rightarrow> c)) \<and>
   ratio (pairCoverage (applyState_globals st s)) =
     (if totalPairs (pairCoverage (applyState_globals st s)) = 0 then 0
      else coveredPairs (pairCoverage (applyState_globals st s)) /
           totalPairs (pairCoverage (applyState_globals st s))) \<and>
   (pairCoveragePerPerson (applyState_globals st s) p = Some c \<longrightarrow>
      ratio c = (if totalPairs c = 0 then 0 else coveredPairs c / totalPairs c))"
  by (auto simp: applyState_globals_def Let_def coverage_of_def rawCoverage_def
      inferredTotalPairs_def split: option.splits if_splits)

theorem applyState_coverage_snapshot_witness:
  "st_pairCoverage partial_coverage_reply = Some \<lparr>raw_coveredPairs = None, raw_totalPairs = None\<rparr> \<and>
   2 \<le> length (st_movies partial_coverage_reply) \<and>
   totalPairs (pairCoverage (applyState_globals partial_coverage_reply initial_rank_state)) = 3 \<and>
   coveredPairs (pairCoverage (applyState_globals partial_coverage_reply initial_rank_state)) = 0 \<and>
   ratio (pairCoverage (applyState_globals partial_coverage_reply initial_rank_state)) = 0"
  using applyState_coverage_snapshot[where st = partial_coverage_reply and s = initial_rank_state
      and rc = "\<lparr>raw_coveredPairs = None, raw_totalPairs = None\<rparr>"]
  by (simp add: partial_coverage_reply_def)

text \<open>
  C7 as stated fails: for a state with two movies, no votes and no coverage object, the
  snapshot has 0 total pairs, not 1.
\<close>

theorem applyState_no_coverage_counterexample:
  "length (movies (applyState_globals no_coverage_reply initial_rank_state)) = 2 \<and>
   totalPairs (pairCoverage (applyState_globals no_coverage_reply initial_rank_state)) = 0 \<and>
   totalPairs (pairCoverage (applyState_globals no_coverage_reply initial_rank_state)) \<noteq>
     2 * (2 - 1) / 2"
  by (simp add: applyState_globals_def no_coverage_reply_def Let_def coverage_of_def
      rawCoverage_def inferredTotalPairs_def)

section \<open>Pair selection\<close>









lemma quarter_normal: "randomNormal quarter pos = Some (0, Suc (Suc pos))"
  by (simp add: randomNormal_def random_nonzero.simps quarter_def box_muller_def)



lemma pickPair_two_movies_value:
  "pickPair quarter 0 two_movies_state =
     Some (Inr (), two_movies_state\<lparr>currentPair := Some (Some (mk_movie ''B''), Some (mk_movie ''A''))\<rparr>, 4)"
  by (simp add: pickPair_def two_movies_state_def initial_rank_state_def still_pair_def
      thompsonSample_def randomNormal_def random_nonzero.simps quarter_def box_muller_def
      sort_desc_def movie_map_def fromEntries_def rated_def mk_movie_def)







lemma stale_globals:
  "movies (applyState_globals stale_rating_reply initial_rank_state) = [mk_movie ''A'', mk_movie ''B'']"
  "ratings (applyState_globals stale_rating_reply initial_rank_state) =
     [(''A'', rated 1500 400), (''B'', rated 1500 400), (''C'', rated 9999 400)]"
  "movieByTitle (applyState_globals stale_rating_reply initial_rank_state) =
     movie_map [mk_movie ''A'', mk_movie ''B'']"
  "rankerConfirmed (applyState_globals stale_rating_reply initial_rank_state)"
  by (simp_all add: applyState_globals_def stale_rating_reply_def initial_rank_state_def
      normalizedRatings_def obj_set_def obj_get_def ensureTsRating_def empty_entry_def mk_movie_def
      normalizeMovieImage_def resolveMovieImage_def is_http_def is_http_or_data_def
      is_array_index_def is_digit_def Let_def movie_map_def rated_def)

text \<open>
  C10: \<^verbatim>\<open>applyState\<close> keeps a belief for every key of the incoming ratings, also for a
  title that is not in the movie list. When such a title is among the two highest
  samples, its element of the new pair is \<^verbatim>\<open>undefined\<close>, and \<^verbatim>\<open>renderPair\<close> throws.
\<close>

theorem applyState_stale_rating_pair:
  "map title (movies (applyState_globals stale_rating_reply initial_rank_state)) = [''A'', ''B''] \<and>
   map fst (ratings (applyState_globals stale_rating_reply initial_rank_state)) = [''A'', ''B'', ''C''] \<and>
   movieByTitle (applyState_globals stale_rating_reply initial_rank_state) ''C'' = None \<and>
   applyState (Some stale_rating_reply) False False quarter 0 initial_rank_state =
     Some (Inl TypeError,
           (applyState_globals stale_rating_reply initial_rank_state)
             \<lparr>currentPair := Some (None, Some (mk_movie ''A''))\<rparr>, 6)"
  by (simp add: stale_globals applyState_def updateVoteVisibility_def pickPair_def still_pair_def
      thompsonSample_def quarter_normal sort_desc_def rated_def movie_map_def fromEntries_def
      mk_movie_def)

end
